theory Spec2Isabelle
  imports Complex_Main "HOL-Library.Word" "HOL-Library.Signed_Division" "HOL-Library.Multiset"
begin

section \<open>Go values used by the package\<close>

subsection \<open>float64\<close>

text \<open>
  A \<^verbatim>\<open>float64\<close> is a finite number, one of the two infinities, or NaN. Finite numbers
  are exact reals here: rounding, overflow of finite arithmetic and the sign of zero are
  not represented. What is represented is every place where the arithmetic of
  \<^verbatim>\<open>fitnessDistance\<close> leaves the finite numbers: \<^verbatim>\<open>0/0\<close> and \<^verbatim>\<open>Inf/Inf\<close> are NaN, and
  NaN is absorbing.
\<close>

datatype float64 = Fl real | PInf | NInf | NaN

fun fneg :: "float64 \<Rightarrow> float64" where
  "fneg (Fl x) = Fl (- x)"
| "fneg PInf = NInf"
| "fneg NInf = PInf"
| "fneg NaN = NaN"

fun fadd :: "float64 \<Rightarrow> float64 \<Rightarrow> float64" where
  "fadd NaN _ = NaN"
| "fadd _ NaN = NaN"
| "fadd (Fl x) (Fl y) = Fl (x + y)"
| "fadd PInf NInf = NaN"
| "fadd NInf PInf = NaN"
| "fadd PInf _ = PInf"
| "fadd _ PInf = PInf"
| "fadd NInf _ = NInf"
| "fadd _ NInf = NInf"

definition fsub :: "float64 \<Rightarrow> float64 \<Rightarrow> float64" where
  "fsub a b = fadd a (fneg b)"

text \<open>\<^verbatim>\<open>math.Abs\<close>.\<close>

fun fabs :: "float64 \<Rightarrow> float64" where
  "fabs (Fl x) = Fl \<bar>x\<bar>"
| "fabs PInf = PInf"
| "fabs NInf = PInf"
| "fabs NaN = NaN"

text \<open>\<^verbatim>\<open>math.Max\<close>: \<^verbatim>\<open>+Inf\<close> wins over everything, then NaN.\<close>

fun fmax :: "float64 \<Rightarrow> float64 \<Rightarrow> float64" where
  "fmax PInf _ = PInf"
| "fmax _ PInf = PInf"
| "fmax NaN _ = NaN"
| "fmax _ NaN = NaN"
| "fmax NInf y = y"
| "fmax x NInf = x"
| "fmax (Fl x) (Fl y) = Fl (max x y)"

text \<open>
  Division. A zero divisor is taken as \<^verbatim>\<open>+0\<close>; the divisors of \<^verbatim>\<open>fitnessDistance\<close>
  are results of \<^verbatim>\<open>math.Max\<close> over \<^verbatim>\<open>math.Abs\<close>, which are never \<^verbatim>\<open>-0\<close>.
\<close>

fun fdiv :: "float64 \<Rightarrow> float64 \<Rightarrow> float64" where
  "fdiv NaN _ = NaN"
| "fdiv _ NaN = NaN"
| "fdiv (Fl x) (Fl y) =
     (if y = 0 then (if x = 0 then NaN else if 0 < x then PInf else NInf)
      else Fl (x / y))"
| "fdiv (Fl x) _ = Fl 0"
| "fdiv PInf (Fl y) = (if y < 0 then NInf else PInf)"
| "fdiv NInf (Fl y) = (if y < 0 then PInf else NInf)"
| "fdiv _ _ = NaN"

subsection \<open>fmt.Sprint\<close>

text \<open>
  \<^verbatim>\<open>fmt.Sprint\<close> of an \<^verbatim>\<open>int\<close> is its decimal numeral, with a leading \<^verbatim>\<open>-\<close> when
  negative.
\<close>

definition digit_char :: "nat \<Rightarrow> char" where
  "digit_char d = ''0123456789'' ! d"

fun fmtInt :: "nat \<Rightarrow> string" where
  "fmtInt n = (if n < 10 then [digit_char n] else fmtInt (n div 10) @ [digit_char (n mod 10)])"

declare fmtInt.simps [simp del]

definition Sprint_int :: "int \<Rightarrow> string" where
  "Sprint_int i = (if i < 0 then CHR ''-'' # fmtInt (nat (- i)) else fmtInt (nat i))"

text \<open>
  Modelled from the spec: the type \<^verbatim>\<open>frame.Format\<close> of package \<^verbatim>\<open>frame\<close>, whose
  declaration is not among the sources. The frame format is one of the compared
  properties and the evaluator forms its pairs as strings: a format is a text here
  (\<^verbatim>\<open>frame.FormatYUY2\<close> and its siblings are its named values), and \<^verbatim>\<open>fmt.Sprint\<close> of a
  text is the text itself.
\<close>

type_synonym Format = string

definition Sprint_Format :: "Format \<Rightarrow> string" where
  "Sprint_Format f = f"

text \<open>
  \<^verbatim>\<open>fmt.Sprint\<close> of a \<^verbatim>\<open>time.Duration\<close> (a count of nanoseconds) is
  \<^verbatim>\<open>Duration.String()\<close>: \<^verbatim>\<open>0s\<close>, \<^verbatim>\<open>20ms\<close>, \<^verbatim>\<open>1.5s\<close>, \<^verbatim>\<open>1h2m3s\<close>. The functions of this
  package take such a renderer as an argument \<open>ds\<close>; \<open>Duration_String\<close> is the standard
  library's algorithm, on which the examples run.
\<close>

type_synonym Duration = int

fun fmtFrac_loop :: "nat \<Rightarrow> nat \<Rightarrow> bool \<Rightarrow> string \<Rightarrow> string \<times> nat \<times> bool" where
  "fmtFrac_loop i v pr w =
     (if i = 0 then (w, v, pr)
      else fmtFrac_loop (i - 1) (v div 10) (pr \<or> v mod 10 \<noteq> 0)
             (if pr \<or> v mod 10 \<noteq> 0 then digit_char (v mod 10) # w else w))"

declare fmtFrac_loop.simps [simp del]

text \<open>
  \<^verbatim>\<open>fmtFrac(buf, v, prec)\<close>: the fraction \<open>v mod 10 ^ prec\<close> without its trailing
  zeros, behind a point (nothing at all when it is zero), and \<open>v div 10 ^ prec\<close>.
\<close>

definition fmtFrac :: "nat \<Rightarrow> nat \<Rightarrow> string \<times> nat" where
  "fmtFrac v prec =
     (if snd (snd (fmtFrac_loop prec v False []))
      then (CHR ''.'' # fst (fmtFrac_loop prec v False []), fst (snd (fmtFrac_loop prec v False [])))
      else (fst (fmtFrac_loop prec v False []), fst (snd (fmtFrac_loop prec v False []))))"

definition fmt_unit :: "nat \<Rightarrow> nat \<Rightarrow> string \<Rightarrow> string" where
  "fmt_unit u prec unit = fmtInt (snd (fmtFrac u prec)) @ fst (fmtFrac u prec) @ unit"

definition fmt_hms :: "nat \<Rightarrow> string" where
  "fmt_hms secs =
     (if 0 < secs div 60
      then (if 0 < secs div 60 div 60 then fmtInt (secs div 60 div 60) @ ''h'' else [])
           @ fmtInt (secs div 60 mod 60) @ ''m''
      else [])
     @ fmtInt (secs mod 60)"

definition Duration_format :: "nat \<Rightarrow> string" where
  "Duration_format u =
     (if u < 1000000000 then
        (if u = 0 then ''0s''
         else if u < 1000 then fmt_unit u 0 ''ns''
         else if u < 1000000 then fmt_unit u 3 [CHR 0xC2, CHR 0xB5, CHR ''s'']
         else fmt_unit u 6 ''ms'')
      else fmt_hms (snd (fmtFrac u 9)) @ fst (fmtFrac u 9) @ ''s'')"

definition Duration_String :: "Duration \<Rightarrow> string" where
  "Duration_String d =
     (if d < 0 then CHR ''-'' # Duration_format (nat (- d)) else Duration_format (nat d))"

subsection \<open>strconv.ParseFloat\<close>

text \<open>
  \<^verbatim>\<open>strconv.ParseFloat(s, 64)\<close> returns a number or an error. The functions of this
  package take the parser as an argument \<open>pf\<close>, with \<open>None\<close> for the error, and the
  theorems about them hold for every parser. \<open>ParseFloat\<close> below is the parser on plain
  decimal numerals (an optional sign, digits, an optional point and more digits, at
  least one digit), on which the examples run; it rejects every other text, the
  exponent, hexadecimal, \<^verbatim>\<open>inf\<close> and \<^verbatim>\<open>nan\<close> spellings of Go among them, and no example
  uses one of those.
\<close>

definition is_digit :: "char \<Rightarrow> bool" where
  "is_digit c = (48 \<le> (of_char c :: nat) \<and> (of_char c :: nat) \<le> 57)"

definition digits_value :: "string \<Rightarrow> nat" where
  "digits_value ds = foldl (\<lambda>a c. 10 * a + (of_char c - 48)) 0 ds"

definition unsigned_decimal :: "string \<Rightarrow> real option" where
  "unsigned_decimal s =
     (let ip = takeWhile is_digit s; rest = dropWhile is_digit s
      in case rest of
           [] \<Rightarrow> if ip = [] then None else Some (real (digits_value ip))
         | c # fp \<Rightarrow>
             if c = CHR ''.'' \<and> list_all is_digit fp \<and> (ip \<noteq> [] \<or> fp \<noteq> [])
             then Some (real (digits_value ip) + real (digits_value fp) / 10 ^ length fp)
             else None)"

definition ParseFloat :: "string \<Rightarrow> float64 option" where
  "ParseFloat s =
     (case s of
        [] \<Rightarrow> None
      | c # r \<Rightarrow>
          if c = CHR ''-'' then map_option (\<lambda>x. Fl (- x)) (unsigned_decimal r)
          else if c = CHR ''+'' then map_option Fl (unsigned_decimal r)
          else map_option Fl (unsigned_decimal s))"

section \<open>Package prop\<close>

text \<open>
  \<^verbatim>\<open>Media\<close> embeds \<^verbatim>\<open>Video\<close>, \<^verbatim>\<open>Audio\<close> and \<^verbatim>\<open>Codec\<close>; their fields are promoted, so the
  record lists them flat. Go's \<^verbatim>\<open>int\<close> is \<open>int\<close> here: no arithmetic is done on these
  fields. \<^verbatim>\<open>FrameRate\<close> is a \<^verbatim>\<open>float32\<close>.
\<close>

record Media =
  DeviceID :: string
  Width :: int
  Height :: int
  FrameRate :: real
  FrameFormat :: Format
  ChannelCount :: int
  Latency :: Duration
  SampleRate :: int
  SampleSize :: int
  CodecName :: string
  BitRate :: int
  Quality :: int
  KeyFrameInterval :: int

text \<open>
  \<^verbatim>\<open>type comparisons map[string]string\<close>. The map is a list of entries with pairwise
  different keys; \<open>add\<close> is the assignment \<^verbatim>\<open>c[actual] = ideal\<close>, which overwrites the
  entry of a key that is already there. The list keeps the entries in the order of
  their first insertion; the loop below gives the same result in every order of the
  entries (\<open>fitnessDistance_order_irrelevant\<close>).
\<close>

type_synonym comparisons = "(string \<times> string) list"

fun add :: "comparisons \<Rightarrow> string \<Rightarrow> string \<Rightarrow> comparisons" where
  "add [] actual ideal = [(actual, ideal)]"
| "add ((k, v) # c) actual ideal =
     (if k = actual then (k, ideal) # c else (k, v) # add c actual ideal)"

datatype panic = Panic string

text \<open>
  One pass of the body of the \<^verbatim>\<open>range\<close> loop of \<^verbatim>\<open>fitnessDistance\<close> on the entry
  \<open>(actual, ideal)\<close>: the new value of \<^verbatim>\<open>dist\<close> (here \<open>acc\<close>), or the panic.
\<close>

definition iteration ::
  "(string \<Rightarrow> float64 option) \<Rightarrow> string \<Rightarrow> string \<Rightarrow> float64 \<Rightarrow> panic + float64" where
  "iteration pf actual ideal acc =
     (if actual = ideal then Inr acc
      else
        (case (pf actual, pf ideal) of
           (Some actualF, Some idealF) \<Rightarrow>
             Inr (fadd acc (fdiv (fabs (fsub actualF idealF)) (fmax (fabs actualF) (fabs idealF))))
         | (None, None) \<Rightarrow>
             Inr (if actual \<noteq> ideal then fadd acc (Fl 1) else acc)
         | _ \<Rightarrow> Inl (Panic ''fitnessDistance can't mix comparisons.'')))"

fun range_loop ::
  "(string \<Rightarrow> float64 option) \<Rightarrow> comparisons \<Rightarrow> float64 \<Rightarrow> panic + float64" where
  "range_loop pf [] acc = Inr acc"
| "range_loop pf ((actual, ideal) # c) acc =
     (case iteration pf actual ideal acc of
        Inl p \<Rightarrow> Inl p
      | Inr acc' \<Rightarrow> range_loop pf c acc')"

definition fitnessDistance :: "(string \<Rightarrow> float64 option) \<Rightarrow> comparisons \<Rightarrow> panic + float64" where
  "fitnessDistance pf c = range_loop pf c (Fl 0)"

definition FitnessDistance ::
  "(string \<Rightarrow> float64 option) \<Rightarrow> (Duration \<Rightarrow> string) \<Rightarrow> Media \<Rightarrow> Media \<Rightarrow> panic + float64" where
  "FitnessDistance pf ds p o' =
     (let cmps = [];
          cmps = add cmps (Sprint_int (Width p)) (Sprint_int (Width o'));
          cmps = add cmps (Sprint_int (Height p)) (Sprint_int (Height o'));
          cmps = add cmps (Sprint_Format (FrameFormat p)) (Sprint_Format (FrameFormat o'));
          cmps = add cmps (Sprint_int (SampleRate p)) (Sprint_int (SampleRate o'));
          cmps = add cmps (ds (Latency p)) (ds (Latency o'))
      in fitnessDistance pf cmps)"

text \<open>The zero value \<^verbatim>\<open>Media{}\<close>: what a caller who constrains nothing passes.\<close>

definition Media_zero :: Media where
  "Media_zero =
     \<lparr>DeviceID = [], Width = 0, Height = 0, FrameRate = 0, FrameFormat = [],
      ChannelCount = 0, Latency = 0, SampleRate = 0, SampleSize = 0, CodecName = [],
      BitRate = 0, Quality = 0, KeyFrameInterval = 0\<rparr>"

subsection \<open>The distance as the specification words it\<close>

text \<open>
  The five compared fields as (actual, ideal) pairs, in the order of the calls of
  \<^verbatim>\<open>cmps.add\<close>, and the sum of their contributions, each pair counted on its own.
\<close>

definition field_pairs :: "(Duration \<Rightarrow> string) \<Rightarrow> Media \<Rightarrow> Media \<Rightarrow> (string \<times> string) list" where
  "field_pairs ds p o' =
     [(Sprint_int (Width p), Sprint_int (Width o')),
      (Sprint_int (Height p), Sprint_int (Height o')),
      (Sprint_Format (FrameFormat p), Sprint_Format (FrameFormat o')),
      (Sprint_int (SampleRate p), Sprint_int (SampleRate o')),
      (ds (Latency p), ds (Latency o'))]"

definition spec_fieldwise_distance ::
  "(string \<Rightarrow> float64 option) \<Rightarrow> (Duration \<Rightarrow> string) \<Rightarrow> Media \<Rightarrow> Media \<Rightarrow> panic + float64" where
  "spec_fieldwise_distance pf ds p o' = range_loop pf (field_pairs ds p o') (Fl 0)"



section \<open>Package mediadevices: tracks\<close>

subsection \<open>Errors, handlers and what a track is seen to do\<close>

text \<open>
  Modelled from the spec: the type \<^verbatim>\<open>InsufficientBufferError\<close> of package \<^verbatim>\<open>io\<close> (imported
  as \<^verbatim>\<open>mio\<close>), whose declaration is not among the sources: the insufficient-buffer
  condition carrying the required size, an \<^verbatim>\<open>int\<close> as \<^verbatim>\<open>2*e.RequiredSize\<close> shows. The
  loops tell this error from every other error. \<^verbatim>\<open>io.EOF\<close> is one of the others; it has
  a constructor of its own because the test's handler looks for it.
\<close>

datatype error = InsufficientBufferError int | EOF | Error string

text \<open>A registered \<^verbatim>\<open>func(error)\<close>, by a name.\<close>

type_synonym handler = nat

text \<open>
  The calls a track makes on its collaborators, in the order it makes them:
  \<^verbatim>\<open>encoder.Read(buff)\<close> with \<^verbatim>\<open>len(buff)\<close>, the video sampler's \<^verbatim>\<open>sample(buff[:n])\<close> with
  \<open>n\<close>, the audio sink's \<^verbatim>\<open>WriteSample\<close> with \<open>n\<close> and \<^verbatim>\<open>Samples\<close>, the registered
  handler with the error, \<^verbatim>\<open>d.Close()\<close> and \<^verbatim>\<open>encoder.Close()\<close>.
\<close>

datatype event =
    Read nat
  | Sample nat
  | WriteSample nat "32 word"
  | Handler handler error
  | DriverClose
  | EncoderClose

text \<open>
  Where the goroutine of \<^verbatim>\<open>start()\<close> is: blocked in \<^verbatim>\<open>encoder.Read\<close>, blocked in the call
  of the sink, returned, or stopped by a run-time panic.
\<close>

datatype pc = InRead | InSink | Returned | Panicked

record Driver =
  ID :: string
  opened :: bool

text \<open>
  \<^verbatim>\<open>track\<close>: the slot of the handler. The sink \<^verbatim>\<open>t\<close> and the sampler \<^verbatim>\<open>s\<close> are
  collaborators: what a call of them returns is an occurrence below. \<open>trace\<close> is not a
  field of the source: it records the calls the track has made so far.
\<close>

record track =
  onErrorHandler :: "handler option"
  trace :: "event list"

text \<open>
  \<^verbatim>\<open>videoTrack\<close> and \<^verbatim>\<open>audioTrack\<close> declare the same fields: the embedded \<^verbatim>\<open>*track\<close>, the
  driver \<^verbatim>\<open>d\<close>, the constraints and the encoder, of which the track sees whether it has
  closed it. \<open>buff\<close> (its length), \<open>sampleSize\<close> (audio only) and \<open>pc\<close> are the local
  state of the goroutine that runs \<^verbatim>\<open>start()\<close>.
\<close>

record deviceTrack = track +
  d :: Driver
  constraints :: Media
  encoder_open :: bool
  buff :: nat
  sampleSize :: "32 word"
  pc :: pc

type_synonym videoTrack = deviceTrack
type_synonym audioTrack = deviceTrack

subsection \<open>track\<close>

text \<open>
  \<^verbatim>\<open>newTrack\<close>: the codec is looked up by name, then the track generator is called; \<open>gen\<close>
  is the error it answers, if any.
\<close>

definition newTrack :: "string list \<Rightarrow> error option \<Rightarrow> Driver \<Rightarrow> string \<Rightarrow> error + track" where
  "newTrack codecs gen drv codecName =
     (case find (\<lambda>c. c = codecName) codecs of
        None \<Rightarrow> Inl (Error (''track: '' @ codecName @ '' is not registered in media engine''))
      | Some selectedCodec \<Rightarrow>
          (case gen of
             Some err \<Rightarrow> Inl err
           | None \<Rightarrow> Inr \<lparr>onErrorHandler = None, trace = []\<rparr>))"

definition OnEnded :: "handler \<Rightarrow> 'a track_scheme \<Rightarrow> 'a track_scheme" where
  "OnEnded h t = t\<lparr>onErrorHandler := Some h\<rparr>"

definition onError :: "error \<Rightarrow> 'a track_scheme \<Rightarrow> 'a track_scheme" where
  "onError err t =
     (case onErrorHandler t of
        None \<Rightarrow> t
      | Some h \<Rightarrow> t\<lparr>trace := trace t @ [Handler h err]\<rparr>)"

subsection \<open>Go integers and conversions in the loops\<close>

text \<open>Go's \<^verbatim>\<open>int\<close> has 64 bits: the product wraps around.\<close>

definition int64 :: "int \<Rightarrow> int" where
  "int64 x = (x + 2 ^ 63) mod 2 ^ 64 - 2 ^ 63"

text \<open>
  \<^verbatim>\<open>Duration.Seconds()\<close>: the whole seconds plus the remaining nanoseconds over
  \<^verbatim>\<open>1e9\<close>, with Go's truncating division, as an exact real.
\<close>

definition Seconds :: "Duration \<Rightarrow> real" where
  "Seconds dur = real_of_int (dur sdiv 1000000000) + real_of_int (dur smod 1000000000) / 1000000000"

text \<open>
  The conversion \<^verbatim>\<open>uint32(x)\<close> of a \<^verbatim>\<open>float64\<close> drops the fraction. For a value outside
  the range of \<^verbatim>\<open>uint32\<close> Go leaves the result to the implementation; here it wraps.
\<close>

definition uint32_of_float64 :: "real \<Rightarrow> 32 word" where
  "uint32_of_float64 x = word_of_int (if 0 \<le> x then \<lfloor>x\<rfloor> else \<lceil>x\<rceil>)"

subsection \<open>The goroutines\<close>

text \<open>
  The loops of \<^verbatim>\<open>start()\<close> block in two calls, \<^verbatim>\<open>encoder.Read\<close> and the call of the sink.
  What these calls return, and the calls the application makes meanwhile on the track,
  are the occurrences a track reacts to.
\<close>

datatype occurrence =
    CallOnEnded handler
  | CallStop
  | ReadReturns int "error option"
  | SinkReturns "error option"

definition call_Read :: "deviceTrack \<Rightarrow> deviceTrack" where
  "call_Read t = t\<lparr>trace := trace t @ [Read (buff t)], pc := InRead\<rparr>"

text \<open>\<^verbatim>\<open>Stop()\<close>, of both kinds of track: \<^verbatim>\<open>d.Close()\<close>, then \<^verbatim>\<open>encoder.Close()\<close>.\<close>

definition Stop :: "deviceTrack \<Rightarrow> deviceTrack" where
  "Stop t =
     t\<lparr>trace := trace t @ [DriverClose, EncoderClose],
       d := (d t)\<lparr>opened := False\<rparr>,
       encoder_open := False\<rparr>"

text \<open>
  \<^verbatim>\<open>videoTrack.start()\<close> in three parts: up to the first call of \<^verbatim>\<open>Read\<close> (lines 135 to
  139); the rest of a pass after \<^verbatim>\<open>Read\<close> has returned \<open>(n, err)\<close>, up to the next
  blocking call (lines 140 to 150); and after \<^verbatim>\<open>sample\<close> has returned \<open>err\<close> (lines 150 to
  153, and 139 again). \<^verbatim>\<open>make\<close> panics on a negative length and \<^verbatim>\<open>buff[:n]\<close> on an \<open>n\<close>
  outside the buffer; an allocation that the memory cannot hold is not represented.
\<close>

definition videoTrack_start :: "videoTrack \<Rightarrow> videoTrack" where
  "videoTrack_start vt = call_Read (vt\<lparr>buff := 1024\<rparr>)"

definition videoTrack_Read_returns :: "int \<Rightarrow> error option \<Rightarrow> videoTrack \<Rightarrow> videoTrack" where
  "videoTrack_Read_returns n err vt =
     (case err of
        Some (InsufficientBufferError RequiredSize) \<Rightarrow>
          (if int64 (2 * RequiredSize) < 0 then vt\<lparr>pc := Panicked\<rparr>
           else call_Read (vt\<lparr>buff := nat (int64 (2 * RequiredSize))\<rparr>))
      | Some e \<Rightarrow> (onError e vt)\<lparr>pc := Returned\<rparr>
      | None \<Rightarrow>
          (if n < 0 \<or> int (buff vt) < n then vt\<lparr>pc := Panicked\<rparr>
           else vt\<lparr>trace := trace vt @ [Sample (nat n)], pc := InSink\<rparr>))"

definition videoTrack_sample_returns :: "error option \<Rightarrow> videoTrack \<Rightarrow> videoTrack" where
  "videoTrack_sample_returns err vt =
     (case err of
        Some e \<Rightarrow> (onError e vt)\<lparr>pc := Returned\<rparr>
      | None \<Rightarrow> call_Read vt)"

text \<open>
  \<^verbatim>\<open>audioTrack.start()\<close>, in the same three parts (lines 209 to 212, 213 to 221, 221 to
  224). It has no case for the insufficient buffer.
\<close>

definition audioTrack_start :: "audioTrack \<Rightarrow> audioTrack" where
  "audioTrack_start t =
     call_Read (t\<lparr>buff := 1024,
       sampleSize :=
         uint32_of_float64 (real_of_int (SampleRate (constraints t)) * Seconds (Latency (constraints t)))\<rparr>)"

definition audioTrack_Read_returns :: "int \<Rightarrow> error option \<Rightarrow> audioTrack \<Rightarrow> audioTrack" where
  "audioTrack_Read_returns n err t =
     (case err of
        Some e \<Rightarrow> (onError e t)\<lparr>pc := Returned\<rparr>
      | None \<Rightarrow>
          (if n < 0 \<or> int (buff t) < n then t\<lparr>pc := Panicked\<rparr>
           else t\<lparr>trace := trace t @ [WriteSample (nat n) (sampleSize t)], pc := InSink\<rparr>))"

definition audioTrack_WriteSample_returns :: "error option \<Rightarrow> audioTrack \<Rightarrow> audioTrack" where
  "audioTrack_WriteSample_returns err t =
     (case err of
        Some e \<Rightarrow> (onError e t)\<lparr>pc := Returned\<rparr>
      | None \<Rightarrow> call_Read t)"

text \<open>
  One occurrence at a track of either kind. A return reaches the goroutine only where
  it is blocked in that call.
\<close>

datatype kind = Video | Audio

fun step :: "kind \<Rightarrow> deviceTrack \<Rightarrow> occurrence \<Rightarrow> deviceTrack" where
  "step k t (CallOnEnded h) = OnEnded h t"
| "step k t CallStop = Stop t"
| "step Video t (ReadReturns n err) = (if pc t = InRead then videoTrack_Read_returns n err t else t)"
| "step Video t (SinkReturns err) = (if pc t = InSink then videoTrack_sample_returns err t else t)"
| "step Audio t (ReadReturns n err) = (if pc t = InRead then audioTrack_Read_returns n err t else t)"
| "step Audio t (SinkReturns err) = (if pc t = InSink then audioTrack_WriteSample_returns err t else t)"

definition run :: "kind \<Rightarrow> deviceTrack \<Rightarrow> occurrence list \<Rightarrow> deviceTrack" where
  "run k t os = foldl (step k) t os"

subsection \<open>The constructors\<close>

text \<open>
  What the collaborators answer while a track is constructed: the track generator,
  \<^verbatim>\<open>d.Open()\<close>, \<^verbatim>\<open>VideoRecord\<close> or \<^verbatim>\<open>AudioRecord\<close>, and the builder of the encoder, each
  with its error, if any.
\<close>

record answers =
  trackGenerator_err :: "error option"
  Open_err :: "error option"
  Record_err :: "error option"
  BuildEncoder_err :: "error option"

text \<open>
  \<^verbatim>\<open>newVideoTrack\<close> and \<^verbatim>\<open>newAudioTrack\<close>: the result, and the driver as the call leaves
  it. A transform of the constraints only wraps the reader. \<open>deviceTrack_of\<close> is the
  struct literal, with a goroutine that has not run yet; \<^verbatim>\<open>go vt.start()\<close> runs it up to
  its first \<^verbatim>\<open>Read\<close>.
\<close>

definition deviceTrack_of :: "track \<Rightarrow> Driver \<Rightarrow> Media \<Rightarrow> deviceTrack" where
  "deviceTrack_of t drv cons =
     \<lparr>onErrorHandler = onErrorHandler t, trace = trace t,
      d = drv, constraints = cons, encoder_open = True,
      buff = 0, sampleSize = 0, pc = InRead\<rparr>"

definition newVideoTrack ::
  "string list \<Rightarrow> answers \<Rightarrow> Driver \<Rightarrow> Media \<Rightarrow> (error + videoTrack) \<times> Driver" where
  "newVideoTrack codecs env drv cons =
     (case newTrack codecs (trackGenerator_err env) drv (CodecName cons) of
        Inl err \<Rightarrow> (Inl err, drv)
      | Inr t \<Rightarrow>
          (case Open_err env of
             Some err \<Rightarrow> (Inl err, drv)
           | None \<Rightarrow>
               (case Record_err env of
                  Some err \<Rightarrow> (Inl err, drv\<lparr>opened := True\<rparr>)
                | None \<Rightarrow>
                    (case BuildEncoder_err env of
                       Some err \<Rightarrow> (Inl err, drv\<lparr>opened := True\<rparr>)
                     | None \<Rightarrow>
                         (Inr (videoTrack_start (deviceTrack_of t (drv\<lparr>opened := True\<rparr>) cons)),
                          drv\<lparr>opened := True\<rparr>)))))"

definition newAudioTrack ::
  "string list \<Rightarrow> answers \<Rightarrow> Driver \<Rightarrow> Media \<Rightarrow> (error + audioTrack) \<times> Driver" where
  "newAudioTrack codecs env drv cons =
     (case newTrack codecs (trackGenerator_err env) drv (CodecName cons) of
        Inl err \<Rightarrow> (Inl err, drv)
      | Inr t \<Rightarrow>
          (case Open_err env of
             Some err \<Rightarrow> (Inl err, drv)
           | None \<Rightarrow>
               (case Record_err env of
                  Some err \<Rightarrow> (Inl err, drv\<lparr>opened := True\<rparr>)
                | None \<Rightarrow>
                    (case BuildEncoder_err env of
                       Some err \<Rightarrow> (Inl err, drv\<lparr>opened := True\<rparr>)
                     | None \<Rightarrow>
                         (Inr (audioTrack_start (deviceTrack_of t (drv\<lparr>opened := True\<rparr>) cons)),
                          drv\<lparr>opened := True\<rparr>)))))"

subsection \<open>Reading a trace\<close>

text \<open>The calls of the failure handler in a trace.\<close>

fun handler_calls :: "event list \<Rightarrow> (handler \<times> error) list" where
  "handler_calls [] = []"
| "handler_calls (Handler h e # es) = (h, e) # handler_calls es"
| "handler_calls (_ # es) = handler_calls es"


subsection \<open>The setting of \<^verbatim>\<open>TestGetUserMedia\<close>\<close>

text \<open>
  One registered codec per kind, a driver that is not open, collaborators that answer
  no error, and the constraints of the test; the mock video encoder refuses a bit rate
  of 0 with the error \<^verbatim>\<open>wrong codec parameter\<close>.
\<close>

definition no_error :: answers where
  "no_error =
     \<lparr>trackGenerator_err = None, Open_err = None, Record_err = None, BuildEncoder_err = None\<rparr>"

definition test_driver :: Driver where
  "test_driver = \<lparr>ID = ''test'', opened = False\<rparr>"

definition test_video_constraints :: Media where
  "test_video_constraints =
     Media_zero\<lparr>CodecName := ''MockVideo'', Width := 640, Height := 480, BitRate := 100000\<rparr>"

definition test_video_constraints_wrong :: Media where
  "test_video_constraints_wrong =
     Media_zero\<lparr>CodecName := ''MockVideo'', Width := 640, Height := 480, BitRate := 0\<rparr>"

definition test_audio_constraints :: Media where
  "test_audio_constraints = Media_zero\<lparr>CodecName := ''MockAudio'', BitRate := 32000\<rparr>"

definition test_videoTrack :: videoTrack where
  "test_videoTrack =
     videoTrack_start
       (deviceTrack_of \<lparr>onErrorHandler = None, trace = []\<rparr> (test_driver\<lparr>opened := True\<rparr>)
          test_video_constraints)"

definition test_audioTrack :: audioTrack where
  "test_audioTrack =
     audioTrack_start
       (deviceTrack_of \<lparr>onErrorHandler = None, trace = []\<rparr> (test_driver\<lparr>opened := True\<rparr>)
          test_audio_constraints)"


section \<open>Properties of the fitness distance\<close>

subsection \<open>Evaluation of the library functions on the texts of the examples\<close>

lemma Sprint_int_0: "Sprint_int 0 = ''0''"
  by (simp add: Sprint_int_def fmtInt.simps digit_char_def)

lemma Sprint_int_480: "Sprint_int 480 = ''480''"
  by (simp add: Sprint_int_def fmtInt.simps digit_char_def)

lemma Sprint_int_640: "Sprint_int 640 = ''640''"
  by (simp add: Sprint_int_def fmtInt.simps digit_char_def)

lemma Duration_String_0: "Duration_String 0 = ''0s''"
  by (simp add: Duration_String_def Duration_format_def)

lemma Duration_String_20ms: "Duration_String 20000000 = ''20ms''"
  by (simp add: Duration_String_def Duration_format_def fmt_unit_def fmtFrac_def
      fmtFrac_loop.simps fmtInt.simps digit_char_def)

lemma ParseFloat_640: "ParseFloat ''640'' = Some (Fl 640)"
  by (simp add: ParseFloat_def unsigned_decimal_def is_digit_def digits_value_def)

lemma ParseFloat_480: "ParseFloat ''480'' = Some (Fl 480)"
  by (simp add: ParseFloat_def unsigned_decimal_def is_digit_def digits_value_def)





lemma ParseFloat_YUY2: "ParseFloat ''YUY2'' = None"
  by (simp add: ParseFloat_def unsigned_decimal_def is_digit_def digits_value_def)


subsection \<open>The comparison set\<close>

lemma add_fresh: "k \<notin> fst ` set c \<Longrightarrow> add c k v = c @ [(k, v)]"
  by (induction c) auto

lemma add_keys: "fst ` set (add c k v) = insert k (fst ` set c)"
proof (induction c)
  case Nil
  then show ?case by simp
next
  case (Cons e c)
  obtain k' v' where e: "e = (k', v')" by (cases e)
  from Cons show ?case by (simp add: e insert_commute)
qed

lemma add_distinct: "distinct (map fst c) \<Longrightarrow> distinct (map fst (add c k v))"
proof (induction c)
  case Nil
  then show ?case by simp
next
  case (Cons e c)
  obtain k' v' where e: "e = (k', v')" by (cases e)
  from Cons show ?case
    by (auto simp: e add_keys)
qed

lemma FitnessDistance_unfold:
  "FitnessDistance pf ds p q =
     fitnessDistance pf
       (add (add (add (add (add []
          (Sprint_int (Width p)) (Sprint_int (Width q)))
          (Sprint_int (Height p)) (Sprint_int (Height q)))
          (Sprint_Format (FrameFormat p)) (Sprint_Format (FrameFormat q)))
          (Sprint_int (SampleRate p)) (Sprint_int (SampleRate q)))
          (ds (Latency p)) (ds (Latency q)))"
  by (simp add: FitnessDistance_def Let_def)


subsection \<open>One pass of the loop\<close>

lemma iteration_mixed:
  assumes "(pf actual = None) \<noteq> (pf ideal = None)"
  shows "iteration pf actual ideal acc = Inl (Panic ''fitnessDistance can't mix comparisons.'')"
proof -
  from assms have "actual \<noteq> ideal" by auto
  with assms show ?thesis
    by (auto simp: iteration_def split: option.splits)
qed

lemma iteration_panic:
  "iteration pf actual ideal acc = Inl e \<Longrightarrow> e = Panic ''fitnessDistance can't mix comparisons.''"
  by (auto simp: iteration_def split: if_splits option.splits)

lemma range_loop_mixed:
  assumes "(actual, ideal) \<in> set c" and "(pf actual = None) \<noteq> (pf ideal = None)"
  shows "range_loop pf c acc = Inl (Panic ''fitnessDistance can't mix comparisons.'')"
  using assms(1)
proof (induction c arbitrary: acc)
  case Nil
  then show ?case by simp
next
  case (Cons e c)
  obtain a i where e: "e = (a, i)" by (cases e)
  show ?case
  proof (cases "iteration pf a i acc")
    case (Inl x)
    then show ?thesis by (simp add: e iteration_panic)
  next
    case (Inr acc')
    with Cons.prems assms(2) have "(actual, ideal) \<in> set c"
      by (auto simp: e iteration_mixed)
    with Cons.IH Inr show ?thesis by (simp add: e)
  qed
qed

lemma fadd_zero: "fadd acc (Fl 0) = acc"
  by (cases acc) simp_all

lemma numeric_distance_pos:
  fixes a i :: real
  assumes "a \<noteq> i"
  shows "0 < \<bar>a - i\<bar> / max \<bar>a\<bar> \<bar>i\<bar>"
proof -
  from assms have "0 < max \<bar>a\<bar> \<bar>i\<bar>" by (auto simp: max_def)
  moreover from assms have "0 < \<bar>a - i\<bar>" by simp
  ultimately show ?thesis by simp
qed

lemma iteration_numeric:
  assumes "pf actual = Some (Fl a)" and "pf ideal = Some (Fl i)" and "a \<noteq> i"
  shows "iteration pf actual ideal acc = Inr (fadd acc (Fl (\<bar>a - i\<bar> / max \<bar>a\<bar> \<bar>i\<bar>)))"
proof -
  from assms have ne: "actual \<noteq> ideal" by auto
  from assms(3) have "max \<bar>a\<bar> \<bar>i\<bar> \<noteq> 0" by (auto simp: max_def)
  with assms ne show ?thesis
    by (simp add: iteration_def fsub_def)
qed


subsection \<open>Integers are rendered and parsed back\<close>

text \<open>
  The decimal parser reads every rendered integer back as that integer, so the
  width, the height and the sample rate are numeric pairs; for them equal texts and
  equal numbers are the same thing.
\<close>

lemma digit_cases:
  assumes "m < (10 :: nat)"
  shows "m = 0 \<or> m = 1 \<or> m = 2 \<or> m = 3 \<or> m = 4 \<or> m = 5 \<or> m = 6 \<or> m = 7 \<or> m = 8 \<or> m = 9"
  using assms by arith

lemma digit_char_code: "m < 10 \<Longrightarrow> of_char (digit_char m) = 48 + m"
  by (drule digit_cases) (elim disjE; simp add: digit_char_def)

lemma is_digit_digit_char: "m < 10 \<Longrightarrow> is_digit (digit_char m)"
  by (simp add: is_digit_def digit_char_code)

lemma digit_char_not_sign: "m < 10 \<Longrightarrow> digit_char m \<noteq> CHR ''-'' \<and> digit_char m \<noteq> CHR ''+''"
  by (drule digit_cases) (elim disjE; simp add: digit_char_def)

lemma fmtInt_digits: "list_all is_digit (fmtInt n)"
proof (induction n rule: fmtInt.induct)
  case (1 n)
  show ?case
  proof (cases "n < 10")
    case True
    then show ?thesis by (subst fmtInt.simps) (simp add: is_digit_digit_char)
  next
    case False
    with 1 show ?thesis by (subst fmtInt.simps) (simp add: is_digit_digit_char)
  qed
qed

lemma fmtInt_nonempty: "fmtInt n \<noteq> []"
  by (subst fmtInt.simps) simp

lemma digits_value_snoc: "digits_value (ds @ [c]) = 10 * digits_value ds + (of_char c - 48)"
  by (simp add: digits_value_def)

lemma fmtInt_value: "digits_value (fmtInt n) = n"
proof (induction n rule: fmtInt.induct)
  case (1 n)
  show ?case
  proof (cases "n < 10")
    case True
    then show ?thesis
      by (subst fmtInt.simps) (simp add: digits_value_def digit_char_code)
  next
    case False
    with 1 have "digits_value (fmtInt (n div 10)) = n div 10" by simp
    with False show ?thesis
      by (subst fmtInt.simps) (simp add: digits_value_snoc digit_char_code)
  qed
qed

lemma unsigned_decimal_fmtInt: "unsigned_decimal (fmtInt n) = Some (real n)"
proof -
  from fmtInt_digits [of n] have tw: "takeWhile is_digit (fmtInt n) = fmtInt n"
    and dw: "dropWhile is_digit (fmtInt n) = []"
    by (simp_all add: list_all_iff)
  show ?thesis
    unfolding unsigned_decimal_def Let_def tw dw
    by (simp add: fmtInt_nonempty fmtInt_value)
qed

lemma fmtInt_hd: "\<exists>c r. fmtInt n = c # r \<and> c \<noteq> CHR ''-'' \<and> c \<noteq> CHR ''+''"
proof -
  obtain c r where cr: "fmtInt n = c # r"
    using fmtInt_nonempty [of n] by (cases "fmtInt n") auto
  from fmtInt_digits [of n] have "is_digit c" by (simp add: cr)
  then have "c \<noteq> CHR ''-'' \<and> c \<noteq> CHR ''+''" by (auto simp: is_digit_def)
  with cr show ?thesis by blast
qed

lemma ParseFloat_Sprint_int: "ParseFloat (Sprint_int i) = Some (Fl (real_of_int i))"
proof (cases "i < 0")
  case True
  then have "real (nat (- i)) = - real_of_int i" by simp
  with True show ?thesis
    by (simp add: Sprint_int_def ParseFloat_def unsigned_decimal_fmtInt)
next
  case False
  obtain c r where cr: "fmtInt (nat i) = c # r" "c \<noteq> CHR ''-''" "c \<noteq> CHR ''+''"
    using fmtInt_hd [of "nat i"] by blast
  have "unsigned_decimal (c # r) = Some (real (nat i))"
    using unsigned_decimal_fmtInt [of "nat i"] by (simp add: cr)
  with False cr show ?thesis
    by (simp add: Sprint_int_def ParseFloat_def)
qed

lemma iteration_int_fields:
  assumes "pf (Sprint_int a) = Some (Fl (real_of_int a))"
    and "pf (Sprint_int i) = Some (Fl (real_of_int i))"
  shows "a = i \<Longrightarrow> iteration pf (Sprint_int a) (Sprint_int i) acc = Inr acc"
    and "a \<noteq> i \<Longrightarrow> iteration pf (Sprint_int a) (Sprint_int i) acc
           = Inr (fadd acc (Fl (\<bar>real_of_int a - real_of_int i\<bar> / max \<bar>real_of_int a\<bar> \<bar>real_of_int i\<bar>)))"
    and "a \<noteq> i \<Longrightarrow> 0 < \<bar>real_of_int a - real_of_int i\<bar> / max \<bar>real_of_int a\<bar> \<bar>real_of_int i\<bar>"
proof -
  show "a = i \<Longrightarrow> iteration pf (Sprint_int a) (Sprint_int i) acc = Inr acc"
    by (simp add: iteration_def)
  assume "a \<noteq> i"
  then have ne: "real_of_int a \<noteq> real_of_int i" by simp
  from assms ne show "iteration pf (Sprint_int a) (Sprint_int i) acc
           = Inr (fadd acc (Fl (\<bar>real_of_int a - real_of_int i\<bar> / max \<bar>real_of_int a\<bar> \<bar>real_of_int i\<bar>)))"
    by (rule iteration_numeric)
  from ne show "0 < \<bar>real_of_int a - real_of_int i\<bar> / max \<bar>real_of_int a\<bar> \<bar>real_of_int i\<bar>"
    by (rule numeric_distance_pos)
qed

subsection \<open>The order of the iteration\<close>

text \<open>
  Go ranges over a map in an order of its own choosing. The result of the loop is the
  same in every order: a panic does not depend on the distance so far, and the sum does
  not depend on the order of its terms.
\<close>

lemma fadd_right_commute: "fadd (fadd a b) c = fadd (fadd a c) b"
  by (cases a; cases b; cases c) simp_all

lemma iteration_shape:
  obtains (panics) "\<And>acc. iteration pf actual ideal acc = Inl (Panic ''fitnessDistance can't mix comparisons.'')"
  | (adds) w where "\<And>acc. iteration pf actual ideal acc = Inr (fadd acc w)"
proof (cases "actual = ideal")
  case True
  then have "\<And>acc. iteration pf actual ideal acc = Inr (fadd acc (Fl 0))"
    by (simp add: iteration_def fadd_zero)
  then show ?thesis by (rule adds)
next
  case False
  show ?thesis
  proof (cases "pf actual")
    case None
    show ?thesis
    proof (cases "pf ideal")
      case None
      with \<open>pf actual = None\<close> False
      have "\<And>acc. iteration pf actual ideal acc = Inr (fadd acc (Fl 1))"
        by (simp add: iteration_def)
      then show ?thesis by (rule adds)
    next
      case (Some y)
      with \<open>pf actual = None\<close> False
      have "\<And>acc. iteration pf actual ideal acc = Inl (Panic ''fitnessDistance can't mix comparisons.'')"
        by (simp add: iteration_def)
      then show ?thesis by (rule panics)
    qed
  next
    case (Some x)
    show ?thesis
    proof (cases "pf ideal")
      case None
      with Some False
      have "\<And>acc. iteration pf actual ideal acc = Inl (Panic ''fitnessDistance can't mix comparisons.'')"
        by (simp add: iteration_def)
      then show ?thesis by (rule panics)
    next
      case (Some y)
      with \<open>pf actual = Some x\<close> False
      have "\<And>acc. iteration pf actual ideal acc
          = Inr (fadd acc (fdiv (fabs (fsub x y)) (fmax (fabs x) (fabs y))))"
        by (simp add: iteration_def)
      then show ?thesis by (rule adds)
    qed
  qed
qed

lemma range_loop_swap:
  "range_loop pf (e # e' # c) acc = range_loop pf (e' # e # c) acc"
proof -
  obtain a i a' i' where e: "e = (a, i)" "e' = (a', i')"
    by (cases e; cases e') auto
  show ?thesis
  proof (cases rule: iteration_shape [of pf a i])
    case panics
    note p = this
    show ?thesis
    proof (cases rule: iteration_shape [of pf a' i'])
      case panics
      with p show ?thesis by (simp add: e)
    next
      case (adds w')
      with p show ?thesis by (simp add: e)
    qed
  next
    case (adds w)
    note p = this
    show ?thesis
    proof (cases rule: iteration_shape [of pf a' i'])
      case panics
      with p show ?thesis by (simp add: e)
    next
      case (adds w')
      with p show ?thesis by (simp add: e fadd_right_commute)
    qed
  qed
qed


lemma range_loop_move_front:
  "range_loop pf (c1 @ e # c2) acc = range_loop pf (e # c1 @ c2) acc"
proof (induction c1 arbitrary: acc)
  case Nil
  show ?case by simp
next
  case (Cons y c1)
  obtain a i where y: "y = (a, i)" by (cases y)
  have "range_loop pf ((y # c1) @ e # c2) acc = range_loop pf (y # e # c1 @ c2) acc"
  proof (cases "iteration pf a i acc")
    case (Inl p)
    then show ?thesis by (simp add: y)
  next
    case (Inr acc')
    with Cons.IH [of acc'] show ?thesis by (simp add: y)
  qed
  also have "\<dots> = range_loop pf (e # y # c1 @ c2) acc"
    by (rule range_loop_swap)
  finally show ?case by simp
qed

lemma mset_Cons_split:
  assumes "mset (e # c) = mset c'"
  obtains c1 c2 where "c' = c1 @ e # c2" and "mset c = mset (c1 @ c2)"
proof -
  from assms have "set (e # c) = set c'"
    by (rule mset_eq_setD)
  then have "e \<in> set c'"
    by (metis list.set_intros(1))
  from split_list [OF this] obtain c1 c2 where c': "c' = c1 @ e # c2"
    by blast
  from assms have "add_mset e (mset c) = add_mset e (mset (c1 @ c2))"
    unfolding c' by simp
  then have "mset c = mset (c1 @ c2)"
    by (simp only: add_mset_add_mset_same_iff)
  with c' show ?thesis by (rule that)
qed

lemma range_loop_order_irrelevant:
  assumes "mset c = mset c'"
  shows "range_loop pf c acc = range_loop pf c' acc"
  using assms
proof (induction c arbitrary: c' acc)
  case Nil
  then show ?case by simp
next
  case (Cons e c)
  from Cons.prems obtain c1 c2 where c': "c' = c1 @ e # c2" and m: "mset c = mset (c1 @ c2)"
    by (rule mset_Cons_split)
  obtain a i where e: "e = (a, i)" by (cases e)
  have "range_loop pf (e # c) acc = range_loop pf (e # c1 @ c2) acc"
  proof (cases "iteration pf a i acc")
    case (Inl p)
    then show ?thesis by (simp add: e)
  next
    case (Inr acc')
    with Cons.IH [OF m, of acc'] show ?thesis by (simp add: e)
  qed
  also have "\<dots> = range_loop pf (c1 @ e # c2) acc"
    by (rule range_loop_move_front [symmetric])
  finally show ?case by (simp only: c')
qed

lemma fitnessDistance_order_irrelevant:
  "mset c = mset c' \<Longrightarrow> fitnessDistance pf c = fitnessDistance pf c'"
  unfolding fitnessDistance_def by (rule range_loop_order_irrelevant)

subsection \<open>The fitness distance of two Media values\<close>

text \<open>
  C3. The claim: the distance of two Media values is the sum of the contributions of
  the five compared fields, each field counted on its own. The comparison set is a map
  keyed by the rendering of the actual value, so two fields whose actual values render
  alike share one entry and the later \<^verbatim>\<open>add\<close> overwrites the earlier. For a candidate of
  width 640 and height 640 against an ideal of width 480 and height 640 the entry of the
  width is lost: the code returns 0, the sum over the fields is 1/4.
\<close>

theorem FitnessDistance_key_collision:
  "FitnessDistance ParseFloat Duration_String
      (Media_zero\<lparr>Width := 640, Height := 640\<rparr>) (Media_zero\<lparr>Width := 480, Height := 640\<rparr>)
     = Inr (Fl 0)
   \<and> spec_fieldwise_distance ParseFloat Duration_String
      (Media_zero\<lparr>Width := 640, Height := 640\<rparr>) (Media_zero\<lparr>Width := 480, Height := 640\<rparr>)
     = Inr (Fl (1 / 4))"
proof
  show "FitnessDistance ParseFloat Duration_String
      (Media_zero\<lparr>Width := 640, Height := 640\<rparr>) (Media_zero\<lparr>Width := 480, Height := 640\<rparr>)
     = Inr (Fl 0)"
    by (simp add: FitnessDistance_unfold Media_zero_def Sprint_int_640 Sprint_int_480
        Sprint_int_0 Duration_String_0 Sprint_Format_def fitnessDistance_def iteration_def)
  show "spec_fieldwise_distance ParseFloat Duration_String
      (Media_zero\<lparr>Width := 640, Height := 640\<rparr>) (Media_zero\<lparr>Width := 480, Height := 640\<rparr>)
     = Inr (Fl (1 / 4))"
    by (simp add: spec_fieldwise_distance_def field_pairs_def Media_zero_def Sprint_int_640
        Sprint_int_480 Sprint_int_0 Duration_String_0 Sprint_Format_def iteration_def
        ParseFloat_640 ParseFloat_480 fsub_def)
qed




text \<open>
  C6. A comparison set that holds a pair of which exactly one value parses as a number
  makes \<^verbatim>\<open>fitnessDistance\<close> panic: no score is returned, whatever the other entries are and
  wherever the pair stands in the iteration.
\<close>

theorem fitnessDistance_mixed_pair_panics:
  assumes "(actual, ideal) \<in> set c"
    and "(pf actual = None) \<noteq> (pf ideal = None)"
  shows "fitnessDistance pf c = Inl (Panic ''fitnessDistance can't mix comparisons.'')"
  using assms by (simp add: fitnessDistance_def range_loop_mixed)

theorem fitnessDistance_mixed_pair_panics_witness:
  "(''640'', ''YUY2'') \<in> set [(''480'', ''0''), (''640'', ''YUY2'')]
   \<and> (ParseFloat ''640'' = None) \<noteq> (ParseFloat ''YUY2'' = None)
   \<and> fitnessDistance ParseFloat [(''480'', ''0''), (''640'', ''YUY2'')]
       = Inl (Panic ''fitnessDistance can't mix comparisons.'')"
proof -
  have m: "(''640'', ''YUY2'') \<in> set [(''480'', ''0''), (''640'', ''YUY2'')]"
    by simp
  have k: "(ParseFloat ''640'' = None) \<noteq> (ParseFloat ''YUY2'' = None)"
    by (simp add: ParseFloat_640 ParseFloat_YUY2)
  from m k fitnessDistance_mixed_pair_panics [OF m k] show ?thesis
    by simp
qed




text \<open>
  C10. Two pairs of Media values that agree on width, height, frame format, sample
  rate and latency have the same fitness distance, whatever their frame rate, channel
  count, sample size, device id, codec name, bit rate, quality and key-frame interval
  are.
\<close>

theorem FitnessDistance_reads_five_fields_only:
  assumes "Width p = Width p'" "Height p = Height p'" "FrameFormat p = FrameFormat p'"
    "SampleRate p = SampleRate p'" "Latency p = Latency p'"
    and "Width q = Width q'" "Height q = Height q'" "FrameFormat q = FrameFormat q'"
    "SampleRate q = SampleRate q'" "Latency q = Latency q'"
  shows "FitnessDistance pf ds p q = FitnessDistance pf ds p' q'"
  using assms by (simp add: FitnessDistance_def)

theorem FitnessDistance_reads_five_fields_only_witness:
  "FitnessDistance ParseFloat Duration_String
      (Media_zero\<lparr>Width := 640, Height := 480\<rparr>)
      (Media_zero\<lparr>Width := 480, Height := 480\<rparr>)
   = FitnessDistance ParseFloat Duration_String
      (Media_zero\<lparr>DeviceID := ''camera0'', Width := 640, Height := 480, FrameRate := 30,
         ChannelCount := 2, SampleSize := 16, CodecName := ''VP8'', BitRate := 100000,
         Quality := 9, KeyFrameInterval := 60\<rparr>)
      (Media_zero\<lparr>Width := 480, Height := 480, FrameRate := 60, CodecName := ''H264'',
         BitRate := 32000\<rparr>)
   \<and> FitnessDistance ParseFloat Duration_String
      (Media_zero\<lparr>Width := 640, Height := 480\<rparr>)
      (Media_zero\<lparr>Width := 480, Height := 480\<rparr>) = Inr (Fl (1 / 4))"
proof -
  have v: "FitnessDistance ParseFloat Duration_String
      (Media_zero\<lparr>Width := 640, Height := 480\<rparr>)
      (Media_zero\<lparr>Width := 480, Height := 480\<rparr>) = Inr (Fl (1 / 4))"
    by (simp add: FitnessDistance_unfold Media_zero_def Sprint_int_640 Sprint_int_480
        Sprint_int_0 Duration_String_0 Sprint_Format_def fitnessDistance_def iteration_def
        ParseFloat_640 ParseFloat_480 fsub_def)
  have "FitnessDistance ParseFloat Duration_String
      (Media_zero\<lparr>Width := 640, Height := 480\<rparr>)
      (Media_zero\<lparr>Width := 480, Height := 480\<rparr>)
   = FitnessDistance ParseFloat Duration_String
      (Media_zero\<lparr>DeviceID := ''camera0'', Width := 640, Height := 480, FrameRate := 30,
         ChannelCount := 2, SampleSize := 16, CodecName := ''VP8'', BitRate := 100000,
         Quality := 9, KeyFrameInterval := 60\<rparr>)
      (Media_zero\<lparr>Width := 480, Height := 480, FrameRate := 60, CodecName := ''H264'',
         BitRate := 32000\<rparr>)"
    by (rule FitnessDistance_reads_five_fields_only) simp_all
  with v show ?thesis by simp
qed

section \<open>Properties of the tracks\<close>

subsection \<open>Traces\<close>

lemma handler_calls_append: "handler_calls (es @ fs) = handler_calls es @ handler_calls fs"
  by (induction es rule: handler_calls.induct) simp_all

lemma run_Nil: "run k t [] = t"
  by (simp add: run_def)

lemma run_Cons: "run k t (x # os) = run k (step k t x) os"
  by (simp add: run_def)



subsection \<open>The failure handler\<close>









lemmas track_eval =
  run_Nil run_Cons OnEnded_def Stop_def onError_def call_Read_def
  videoTrack_start_def videoTrack_Read_returns_def videoTrack_sample_returns_def
  audioTrack_start_def audioTrack_Read_returns_def audioTrack_WriteSample_returns_def
  deviceTrack_of_def test_videoTrack_def test_audioTrack_def test_driver_def int64_def


subsection \<open>The sample count of an audio track\<close>









subsection \<open>The insufficient-buffer condition\<close>

lemma videoTrack_retries:
  assumes "pc t = InRead" and "0 \<le> r" and "r < 2 ^ 62"
  shows "step Video t (ReadReturns n (Some (InsufficientBufferError r)))
           = call_Read (t\<lparr>buff := nat (2 * r)\<rparr>)"
    and "r \<le> int (buff (step Video t (ReadReturns n (Some (InsufficientBufferError r)))))"
    and "handler_calls (trace (step Video t (ReadReturns n (Some (InsufficientBufferError r)))))
           = handler_calls (trace t)"
proof -
  from assms(2,3) have "int64 (2 * r) = 2 * r"
    by (simp add: int64_def)
  with assms show "step Video t (ReadReturns n (Some (InsufficientBufferError r)))
           = call_Read (t\<lparr>buff := nat (2 * r)\<rparr>)"
    by (simp add: videoTrack_Read_returns_def)
  with assms(2) show "r \<le> int (buff (step Video t (ReadReturns n (Some (InsufficientBufferError r)))))"
    and "handler_calls (trace (step Video t (ReadReturns n (Some (InsufficientBufferError r)))))
           = handler_calls (trace t)"
    by (simp_all add: call_Read_def handler_calls_append)
qed

text \<open>
  C1. The claim: in the loop of every track, video and audio alike, an insufficient
  buffer of required size \<open>R\<close> makes the loop read again with a buffer of at least \<open>R\<close>
  bytes and never reaches the failure handler. The video loop reads again with \<open>2 R\<close>
  bytes. The audio loop has no such case: it hands the condition to the handler and
  returns.
\<close>

theorem audioTrack_insufficient_buffer_reaches_handler:
  "trace (run Audio test_audioTrack
      [CallOnEnded 1, ReadReturns 0 (Some (InsufficientBufferError 2048))])
     = [Read 1024, Handler 1 (InsufficientBufferError 2048)]
   \<and> pc (run Audio test_audioTrack
      [CallOnEnded 1, ReadReturns 0 (Some (InsufficientBufferError 2048))]) = Returned
   \<and> trace (run Video test_videoTrack
      [CallOnEnded 1, ReadReturns 0 (Some (InsufficientBufferError 2048))])
     = [Read 1024, Read 4096]
   \<and> pc (run Video test_videoTrack
      [CallOnEnded 1, ReadReturns 0 (Some (InsufficientBufferError 2048))]) = InRead"
  by (simp add: track_eval)

subsection \<open>Stop\<close>




subsection \<open>Construction\<close>

text \<open>
  C4. The claim: when the construction of a track fails after the device was opened,
  the device is released before the constructor returns its error. Both constructors
  return the error of the recorder or of the encoder builder at once: the driver is
  left open. In the setting of the test, the bit rate 0 that the mock encoder refuses
  leaves the driver open.
\<close>

theorem constructors_leave_driver_open:
  "\<not> opened test_driver
   \<and> newVideoTrack [''MockVideo'']
       (no_error\<lparr>BuildEncoder_err := Some (Error ''wrong codec parameter'')\<rparr>)
       test_driver test_video_constraints_wrong
     = (Inl (Error ''wrong codec parameter''), test_driver\<lparr>opened := True\<rparr>)
   \<and> newVideoTrack [''MockVideo''] (no_error\<lparr>Record_err := Some (Error ''no frames'')\<rparr>)
       test_driver test_video_constraints
     = (Inl (Error ''no frames''), test_driver\<lparr>opened := True\<rparr>)
   \<and> newAudioTrack [''MockAudio'']
       (no_error\<lparr>BuildEncoder_err := Some (Error ''wrong codec parameter'')\<rparr>)
       test_driver test_audio_constraints
     = (Inl (Error ''wrong codec parameter''), test_driver\<lparr>opened := True\<rparr>)
   \<and> newAudioTrack [''MockAudio''] (no_error\<lparr>Record_err := Some (Error ''no samples'')\<rparr>)
       test_driver test_audio_constraints
     = (Inl (Error ''no samples''), test_driver\<lparr>opened := True\<rparr>)"
  by (simp add: newVideoTrack_def newAudioTrack_def newTrack_def no_error_def test_driver_def
      test_video_constraints_def test_video_constraints_wrong_def test_audio_constraints_def
      Media_zero_def)

lemma newVideoTrack_test:
  "newVideoTrack [''MockVideo''] no_error test_driver test_video_constraints
     = (Inr test_videoTrack, test_driver\<lparr>opened := True\<rparr>)"
  by (simp add: newVideoTrack_def newTrack_def no_error_def test_video_constraints_def
      Media_zero_def test_videoTrack_def)

lemma newAudioTrack_test:
  "newAudioTrack [''MockAudio''] no_error test_driver test_audio_constraints
     = (Inr test_audioTrack, test_driver\<lparr>opened := True\<rparr>)"
  by (simp add: newAudioTrack_def newTrack_def no_error_def test_audio_constraints_def
      Media_zero_def test_audioTrack_def)

end
